theory Spec2Isabelle
  imports Main "HOL-Library.Sublist" "HOL-Library.Word" "HOL-Library.Product_Lexorder"
begin

unbundle bit_operations_syntax

section \<open>Python values\<close>

text \<open>
  A Python \<open>str\<close> is a sequence of Unicode code points, and \<open>len\<close>, \<open>in\<close>,
  \<open>startswith\<close>, \<open>replace\<close> and \<open>re\<close> all work on code points. The texts of this
  program are mostly Chinese, so a \<open>str\<close> is modelled as the list of its code points
  (natural numbers below \<open>0x110000\<close>); \<open>bytes\<close> are lists of numbers below 256.
  \<open>ascii\<close> writes an ASCII literal.
\<close>

type_synonym ustr = "nat list"
type_synonym bytes = "nat list"

definition ascii :: "string \<Rightarrow> ustr" where
  "ascii s = map of_char s"

text \<open>
  Exceptions are values: the class and \<open>str(e)\<close>. Every class here is a subclass of
  \<open>Exception\<close>, so an \<open>except Exception\<close> clause catches each of them.
  \<open>ServiceError\<close> stands for whatever the generation service or a callback raises.
\<close>

datatype exn_class = ValueError | UnicodeEncodeError | UnboundLocalError | ServiceError

datatype exn = Exn exn_class ustr

fun str_exn :: "exn \<Rightarrow> ustr" where
  "str_exn (Exn c m) = m"

subsection \<open>\<open>str.encode()\<close>: UTF-8\<close>

text \<open>
  \<open>content.encode()\<close> encodes to UTF-8 with the \<open>strict\<close> handler: a surrogate code
  point (\<open>0xD800\<close> to \<open>0xDFFF\<close>), which a Python \<open>str\<close> may hold, raises
  \<open>UnicodeEncodeError\<close>. Numbers from \<open>0x110000\<close> on are not code points at all; the
  model refuses them in the same way.
\<close>

definition encodable :: "nat \<Rightarrow> bool" where
  "encodable c = (c < 0xD800 \<or> (0xE000 \<le> c \<and> c < 0x110000))"

definition utf8_char :: "nat \<Rightarrow> bytes" where
  "utf8_char c =
     (if c < 0x80 then [c]
      else if c < 0x800 then [0xC0 + c div 64, 0x80 + c mod 64]
      else if c < 0x10000 then [0xE0 + c div 4096, 0x80 + (c div 64) mod 64, 0x80 + c mod 64]
      else [0xF0 + c div 262144, 0x80 + (c div 4096) mod 64,
            0x80 + (c div 64) mod 64, 0x80 + c mod 64])"

definition encode :: "ustr \<Rightarrow> exn + bytes" where
  "encode s =
     (if list_all encodable s then Inr (concat (map utf8_char s))
      else Inl (Exn UnicodeEncodeError (ascii ''surrogates not allowed'')))"

subsection \<open>\<open>hashlib.md5(...).hexdigest()\<close>\<close>

text \<open>
  The digest is the one of RFC 1321, which \<open>hashlib.md5\<close> computes: the message is
  padded to a multiple of 64 bytes, each block of sixteen little-endian 32-bit words
  goes through 64 steps on a state of four words, and the final state is written out
  low byte first, two lower-case hexadecimal digits a byte.
\<close>

definition md5_s :: "nat list" where
  "md5_s = [7, 12, 17, 22, 7, 12, 17, 22, 7, 12, 17, 22, 7, 12, 17, 22,
            5, 9, 14, 20, 5, 9, 14, 20, 5, 9, 14, 20, 5, 9, 14, 20,
            4, 11, 16, 23, 4, 11, 16, 23, 4, 11, 16, 23, 4, 11, 16, 23,
            6, 10, 15, 21, 6, 10, 15, 21, 6, 10, 15, 21, 6, 10, 15, 21]"

definition md5_K :: "32 word list" where
  "md5_K = [0xd76aa478, 0xe8c7b756, 0x242070db, 0xc1bdceee, 0xf57c0faf, 0x4787c62a,
            0xa8304613, 0xfd469501, 0x698098d8, 0x8b44f7af, 0xffff5bb1, 0x895cd7be,
            0x6b901122, 0xfd987193, 0xa679438e, 0x49b40821, 0xf61e2562, 0xc040b340,
            0x265e5a51, 0xe9b6c7aa, 0xd62f105d, 0x02441453, 0xd8a1e681, 0xe7d3fbc8,
            0x21e1cde6, 0xc33707d6, 0xf4d50d87, 0x455a14ed, 0xa9e3e905, 0xfcefa3f8,
            0x676f02d9, 0x8d2a4c8a, 0xfffa3942, 0x8771f681, 0x6d9d6122, 0xfde5380c,
            0xa4beea44, 0x4bdecfa9, 0xf6bb4b60, 0xbebfbc70, 0x289b7ec6, 0xeaa127fa,
            0xd4ef3085, 0x04881d05, 0xd9d4d039, 0xe6db99e5, 0x1fa27cf8, 0xc4ac5665,
            0xf4292244, 0x432aff97, 0xab9423a7, 0xfc93a039, 0x655b59c3, 0x8f0ccc92,
            0xffeff47d, 0x85845dd1, 0x6fa87e4f, 0xfe2ce6e0, 0xa3014314, 0x4e0811a1,
            0xf7537e82, 0xbd3af235, 0x2ad7d2bb, 0xeb86d391]"

definition rotl32 :: "nat \<Rightarrow> 32 word \<Rightarrow> 32 word" where
  "rotl32 n w = push_bit n w OR drop_bit (32 - n) w"

definition le_word :: "bytes \<Rightarrow> 32 word" where
  "le_word bs = foldr (\<lambda>b w. of_nat b + push_bit 8 w) (take 4 bs) 0"

definition word_le :: "32 word \<Rightarrow> bytes" where
  "word_le w = map (\<lambda>k. unat (drop_bit (8 * k) w AND 0xFF)) [0, 1, 2, 3]"

definition md5_pad :: "bytes \<Rightarrow> bytes" where
  "md5_pad m =
     m @ [0x80] @ replicate ((55 + 64 - length m mod 64) mod 64) 0
       @ map (\<lambda>k. ((8 * length m) div 2 ^ (8 * k)) mod 256) [0, 1, 2, 3, 4, 5, 6, 7]"

type_synonym md5_state = "32 word \<times> 32 word \<times> 32 word \<times> 32 word"

definition md5_step :: "32 word list \<Rightarrow> nat \<Rightarrow> md5_state \<Rightarrow> md5_state" where
  "md5_step M i st =
     (case st of (a, b, c, d) \<Rightarrow>
        (let f = (if i < 16 then (b AND c) OR (NOT b AND d)
                  else if i < 32 then (d AND b) OR (NOT d AND c)
                  else if i < 48 then b XOR c XOR d
                  else c XOR (b OR NOT d));
             g = (if i < 16 then i
                  else if i < 32 then (5 * i + 1) mod 16
                  else if i < 48 then (3 * i + 5) mod 16
                  else (7 * i) mod 16)
         in (d, b + rotl32 (md5_s ! i) (f + a + md5_K ! i + M ! g), b, c)))"

definition md5_block :: "md5_state \<Rightarrow> bytes \<Rightarrow> md5_state" where
  "md5_block st0 chunk =
     (case st0 of (a0, b0, c0, d0) \<Rightarrow>
        (let M = map (\<lambda>k. le_word (drop (4 * k) chunk)) [0..<16] in
         case fold (md5_step M) [0..<64] st0 of
           (a, b, c, d) \<Rightarrow> (a0 + a, b0 + b, c0 + c, d0 + d)))"

fun md5_blocks :: "nat \<Rightarrow> md5_state \<Rightarrow> bytes \<Rightarrow> md5_state" where
  "md5_blocks 0 st bs = st"
| "md5_blocks (Suc n) st bs = md5_blocks n (md5_block st (take 64 bs)) (drop 64 bs)"

definition md5_digest :: "bytes \<Rightarrow> bytes" where
  "md5_digest m =
     (let p = md5_pad m;
          st = md5_blocks (length p div 64)
                 (0x67452301, 0xefcdab89, 0x98badcfe, 0x10325476) p
      in case st of (a, b, c, d) \<Rightarrow> word_le a @ word_le b @ word_le c @ word_le d)"

definition hex_digit :: "nat \<Rightarrow> nat" where
  "hex_digit n = (if n < 10 then 48 + n else 87 + n)"

definition is_hex_digit :: "nat \<Rightarrow> bool" where
  "is_hex_digit c = ((48 \<le> c \<and> c \<le> 57) \<or> (97 \<le> c \<and> c \<le> 102))"

definition hexdigest :: "bytes \<Rightarrow> ustr" where
  "hexdigest bs = concat (map (\<lambda>b. [hex_digit (b div 16 mod 16), hex_digit (b mod 16)]) bs)"

definition md5_hexdigest :: "bytes \<Rightarrow> ustr" where
  "md5_hexdigest m = hexdigest (md5_digest m)"

section \<open>The version store (\<open>core/version_manager.py\<close>)\<close>

text \<open>
  A version record is the dict that \<open>save_version\<close> builds; \<open>vtype\<close> and \<open>vnote\<close>
  are its \<open>'type'\<close> and \<open>'note'\<close> entries.
\<close>

record version =
  timestamp :: ustr
  vtype :: ustr
  content :: ustr
  vnote :: ustr
  hash :: ustr
  word_count :: nat
  version_number :: nat

text \<open>
  \<open>save_version\<close> mutates the list it is given and returns a flag; the model returns
  the flag with the new list. \<open>now\<close> is the text of
  \<open>datetime.now().strftime("%Y-%m-%d %H:%M:%S")\<close>. The hash is computed first, so a
  content that cannot be encoded raises before the list is looked at.
\<close>

definition save_version ::
    "ustr \<Rightarrow> version list \<Rightarrow> ustr \<Rightarrow> ustr \<Rightarrow> ustr \<Rightarrow> exn + (bool \<times> version list)" where
  "save_version now versions version_type cont vn =
     (case encode cont of
        Inl e \<Rightarrow> Inl e
      | Inr bs \<Rightarrow>
          (let content_hash = take 8 (md5_hexdigest bs) in
           if versions \<noteq> [] \<and> content (last versions) = cont then Inr (False, versions)
           else Inr (True, versions @
                  [\<lparr>timestamp = now, vtype = version_type, content = cont, vnote = vn,
                    hash = content_hash, word_count = length cont,
                    version_number = length versions + 1\<rparr>])))"

text \<open>
  A session is a sequence of \<open>save_version\<close> calls on one list, each with its own
  clock reading, type, content and note. A call that raises has not touched the list
  (the hash is computed before anything else), and the session goes on.
\<close>

type_synonym save_call = "ustr \<times> ustr \<times> ustr \<times> ustr"

fun run_saves :: "version list \<Rightarrow> save_call list \<Rightarrow> version list" where
  "run_saves vs [] = vs"
| "run_saves vs ((now, ty, cont, vn) # cs) =
     (case save_version now vs ty cont vn of
        Inl e \<Rightarrow> run_saves vs cs
      | Inr (saved, vs') \<Rightarrow> run_saves vs' cs)"

definition numbered :: "version list \<Rightarrow> bool" where
  "numbered vs = (\<forall>i < length vs. version_number (vs ! i) = i + 1)"

definition no_adjacent_dup :: "version list \<Rightarrow> bool" where
  "no_adjacent_dup vs = (\<forall>i. Suc i < length vs \<longrightarrow> content (vs ! i) \<noteq> content (vs ! Suc i))"

section \<open>The critique validator (\<open>core/gemini_client.py\<close>)\<close>

subsection \<open>String operations\<close>

text \<open>\<open>sub in s\<close>: \<open>sub\<close> occurs in \<open>s\<close> as a contiguous run of code points.\<close>

primrec str_in :: "ustr \<Rightarrow> ustr \<Rightarrow> bool" where
  "str_in sub [] = (sub = [])"
| "str_in sub (c # cs) = (prefix sub (c # cs) \<or> str_in sub cs)"

text \<open>\<open>sep.join(xs)\<close>.\<close>

fun join :: "ustr \<Rightarrow> ustr list \<Rightarrow> ustr" where
  "join sep [] = []"
| "join sep [x] = x"
| "join sep (x # y # ys) = x @ sep @ join sep (y # ys)"

subsection \<open>The character classes of \<open>re\<close>\<close>

text \<open>
  For a \<open>str\<close> pattern, \<open>\s\<close> matches the characters for which \<open>str.isspace()\<close>
  holds and \<open>\d\<close> the decimal digits of every script (general category \<open>Nd\<close>);
  the tables are those of Unicode 14, which CPython 3.11 carries.
\<close>

definition re_space :: "nat \<Rightarrow> bool" where
  "re_space c = (c \<in> set [0x9, 0xA, 0xB, 0xC, 0xD, 0x1C, 0x1D, 0x1E, 0x1F, 0x20, 0x85, 0xA0,
       0x1680, 0x2000, 0x2001, 0x2002, 0x2003, 0x2004, 0x2005, 0x2006, 0x2007, 0x2008,
       0x2009, 0x200A, 0x2028, 0x2029, 0x202F, 0x205F, 0x3000])"

definition digit_ranges :: "(nat \<times> nat) list" where
  "digit_ranges =
    [(0x30, 0x39), (0x660, 0x669), (0x6F0, 0x6F9), (0x7C0, 0x7C9), (0x966, 0x96F),
     (0x9E6, 0x9EF), (0xA66, 0xA6F), (0xAE6, 0xAEF), (0xB66, 0xB6F), (0xBE6, 0xBEF),
     (0xC66, 0xC6F), (0xCE6, 0xCEF), (0xD66, 0xD6F), (0xDE6, 0xDEF), (0xE50, 0xE59),
     (0xED0, 0xED9), (0xF20, 0xF29), (0x1040, 0x1049), (0x1090, 0x1099), (0x17E0, 0x17E9),
     (0x1810, 0x1819), (0x1946, 0x194F), (0x19D0, 0x19D9), (0x1A80, 0x1A89),
     (0x1A90, 0x1A99), (0x1B50, 0x1B59), (0x1BB0, 0x1BB9), (0x1C40, 0x1C49),
     (0x1C50, 0x1C59), (0xA620, 0xA629), (0xA8D0, 0xA8D9), (0xA900, 0xA909),
     (0xA9D0, 0xA9D9), (0xA9F0, 0xA9F9), (0xAA50, 0xAA59), (0xABF0, 0xABF9),
     (0xFF10, 0xFF19), (0x104A0, 0x104A9), (0x10D30, 0x10D39), (0x11066, 0x1106F),
     (0x110F0, 0x110F9), (0x11136, 0x1113F), (0x111D0, 0x111D9), (0x112F0, 0x112F9),
     (0x11450, 0x11459), (0x114D0, 0x114D9), (0x11650, 0x11659), (0x116C0, 0x116C9),
     (0x11730, 0x11739), (0x118E0, 0x118E9), (0x11950, 0x11959), (0x11C50, 0x11C59),
     (0x11D50, 0x11D59), (0x11DA0, 0x11DA9), (0x16A60, 0x16A69), (0x16AC0, 0x16AC9),
     (0x16B50, 0x16B59), (0x1D7CE, 0x1D7FF), (0x1E140, 0x1E149), (0x1E2F0, 0x1E2F9),
     (0x1E950, 0x1E959), (0x1FBF0, 0x1FBF9)]"

definition re_digit :: "nat \<Rightarrow> bool" where
  "re_digit c = list_ex (\<lambda>r. fst r \<le> c \<and> c \<le> snd r) digit_ranges"

subsection \<open>A backtracking matcher\<close>

text \<open>
  A matcher maps the text at a position to the list of remainders it can leave, in the
  order in which the backtracking engine of \<open>re\<close> tries them (a greedy repetition
  tries the longest run first). \<open>re_search\<close> tries every start position, left to
  right; \<open>re.search\<close> returns a match object exactly when one of them succeeds.
\<close>

type_synonym matcher = "ustr \<Rightarrow> ustr list"

definition m_lit :: "ustr \<Rightarrow> matcher" where
  "m_lit p s = (if prefix p s then [drop (length p) s] else [])"

definition m_class :: "(nat \<Rightarrow> bool) \<Rightarrow> matcher" where
  "m_class P s = (case s of [] \<Rightarrow> [] | c # cs \<Rightarrow> if P c then [cs] else [])"

primrec m_star :: "(nat \<Rightarrow> bool) \<Rightarrow> matcher" where
  "m_star P [] = [[]]"
| "m_star P (c # cs) = (if P c then m_star P cs @ [c # cs] else [c # cs])"

definition m_plus :: "(nat \<Rightarrow> bool) \<Rightarrow> matcher" where
  "m_plus P s = (case s of [] \<Rightarrow> [] | c # cs \<Rightarrow> if P c then m_star P cs else [])"

definition m_seq :: "matcher \<Rightarrow> matcher \<Rightarrow> matcher" where
  "m_seq p q s = concat (map q (p s))"

primrec re_search :: "matcher \<Rightarrow> ustr \<Rightarrow> bool" where
  "re_search m [] = (m [] \<noteq> [])"
| "re_search m (c # cs) = (m (c # cs) \<noteq> [] \<or> re_search m cs)"

subsection \<open>\<open>validate_critique_output\<close>\<close>

text \<open>
  The five section labels, the score label with its full-width or ASCII colon, and the
  texts of the reason, as code points.
\<close>

definition sec_overall :: ustr where "sec_overall = [23529, 26680, 32317, 35413]"
definition sec_score :: ustr where "sec_score = [32156, 21512, 35413, 20998]"
definition sec_passed :: ustr where "sec_passed = [36890, 36942, 27298, 26597]"
definition sec_failed :: ustr where "sec_failed = [26410, 36890, 36942, 27298, 26597]"
definition sec_next :: ustr where "sec_next = [19979, 19968, 27493, 34892, 21205]"

definition required_sections :: "ustr list" where
  "required_sections = [sec_overall, sec_score, sec_passed, sec_failed, sec_next]"

definition score_format_marker :: ustr where
  "score_format_marker = [35413, 20998, 26684, 24335]"

definition missing_prefix :: ustr where
  "missing_prefix = [32570, 23569, 24517, 35201, 31456, 31680, 65306]"

definition is_colon :: "nat \<Rightarrow> bool" where
  "is_colon c = (c = 0xFF1A \<or> c = 0x3A)"

text \<open>The pattern \<^verbatim>\<open><score label>[:\<close> or full-width colon\<^verbatim>\<open>]\s*(\d+)\s*/\s*100\<close>.\<close>

definition score_pattern :: matcher where
  "score_pattern =
     m_seq (m_lit sec_score) (m_seq (m_class is_colon) (m_seq (m_star re_space)
       (m_seq (m_plus re_digit) (m_seq (m_star re_space) (m_seq (m_lit [0x2F])
         (m_seq (m_star re_space) (m_lit [0x31, 0x30, 0x30])))))))"

definition validate_critique_output :: "ustr \<Rightarrow> bool \<times> ustr" where
  "validate_critique_output critique_text =
     (let missing = filter (\<lambda>section. \<not> str_in section critique_text) required_sections;
          missing = (if \<not> re_search score_pattern critique_text
                     then missing @ [score_format_marker] else missing)
      in if missing \<noteq> [] then (False, missing_prefix @ join [0x2C, 0x20] missing)
         else (True, []))"

text \<open>
  What a match of the pattern is, said without the engine: somewhere in the text stand
  the score label, one of the two colons, any white space, one or more decimal digits,
  any white space, a slash, any white space and \<open>100\<close>.
\<close>

definition has_score :: "ustr \<Rightarrow> bool" where
  "has_score t = (\<exists>pre colon ws1 ds ws2 ws3 post.
      t = pre @ sec_score @ [colon] @ ws1 @ ds @ ws2 @ [0x2F] @ ws3 @ [0x31, 0x30, 0x30] @ post \<and>
      is_colon colon \<and> list_all re_space ws1 \<and> ds \<noteq> [] \<and> list_all re_digit ds \<and>
      list_all re_space ws2 \<and> list_all re_space ws3)"

text \<open>Two sample critiques: a well-formed one scored 87, and one scored 150.\<close>

definition critique_87 :: ustr where
  "critique_87 = sec_overall @ [10] @ sec_score @ [0x3A, 0x20, 0x38, 0x37, 0x2F, 0x31, 0x30, 0x30, 10]
     @ sec_passed @ [10] @ sec_failed @ [10] @ sec_next"

definition critique_150 :: ustr where
  "critique_150 = sec_overall @ [10] @ sec_score @ [0x3A, 0x20, 0x31, 0x35, 0x30, 0x2F, 0x31, 0x30, 0x30, 10]
     @ sec_passed @ [10] @ sec_failed @ [10] @ sec_next"

section \<open>The critique engine and the deep review (\<open>core/gemini_client.py\<close>)\<close>

text \<open>
  What lies outside the functions: the environment variables that \<open>core/config.py\<close>
  reads, and the two system prompts imported from \<open>core/prompts.py\<close>, which is not part
  of the sources at hand, so they are fields of the environment.
\<close>

record env =
  api_key :: ustr
  model_name :: ustr
  critic_system_prompt :: ustr
  refine_system_prompt :: ustr

text \<open>
  A call of \<open>client.models.generate_content\<close>: the model, the contents, and the
  configuration (the temperature in tenths). The service answers with a response whose
  \<open>text\<close> may be \<open>None\<close>, or raises. Its answer to the n-th call of a run (counted
  from 0) is a parameter \<open>svc\<close> of every function that calls it.
\<close>

record request =
  req_model :: ustr
  req_contents :: ustr
  req_system_instruction :: ustr
  req_temperature_tenths :: nat
  req_max_output_tokens :: nat

datatype outcome = Returns "ustr option" | Raises exn

type_synonym service = "nat \<Rightarrow> request \<Rightarrow> outcome"

text \<open>
  The effects of a run, in order: generation calls, \<open>time.sleep\<close> and the texts
  handed to the status callback. The state also holds whether the module's global
  \<open>_client\<close> has been created.
\<close>

datatype event = Generate request | Sleep nat | Status ustr

record world =
  client_ready :: bool
  trace :: "event list"

fun is_generate :: "event \<Rightarrow> bool" where
  "is_generate (Generate r) = True"
| "is_generate e = False"

fun is_status :: "event \<Rightarrow> bool" where
  "is_status (Status m) = True"
| "is_status e = False"

definition n_calls :: "world \<Rightarrow> nat" where
  "n_calls w = length (filter is_generate (trace w))"

definition emit :: "event \<Rightarrow> world \<Rightarrow> world" where
  "emit e w = w\<lparr>trace := trace w @ [e]\<rparr>"

text \<open>
  \<open>get_client\<close>: the client is created on first use, and without an API key that
  raises \<open>ValueError\<close>.
\<close>

definition key_missing_message :: ustr where
  "key_missing_message = [71, 69, 77, 73, 78, 73, 95, 65, 80, 73, 95, 75, 69, 89, 32,
     29872, 22659, 35722, 25976, 26410, 35373, 23450]"

definition get_client :: "env \<Rightarrow> world \<Rightarrow> exn + world" where
  "get_client ev w =
     (if client_ready w then Inr w
      else if api_key ev = [] then Inl (Exn ValueError key_missing_message)
      else Inr (w\<lparr>client_ready := True\<rparr>))"

definition generate_content :: "service \<Rightarrow> request \<Rightarrow> world \<Rightarrow> outcome \<times> world" where
  "generate_content svc req w = (svc (n_calls w) req, emit (Generate req) w)"

text \<open>\<open>x or ""\<close> for an optional text.\<close>

definition or_empty :: "ustr option \<Rightarrow> ustr" where
  "or_empty t = (case t of None \<Rightarrow> [] | Some x \<Rightarrow> x)"

subsection \<open>\<open>criticize_plan\<close>\<close>

definition critic_request_prefix :: ustr where
  "critic_request_prefix = [35531, 23529, 26680, 20197, 19979, 32, 80, 82, 68, 65306, 10, 10]"

definition review_failed_marker :: ustr where
  "review_failed_marker = [10060, 32, 23529, 26680, 22833, 25943, 65306]"

definition critic_request :: "env \<Rightarrow> ustr \<Rightarrow> request" where
  "critic_request ev plan_content =
     \<lparr>req_model = model_name ev, req_contents = critic_request_prefix @ plan_content,
      req_system_instruction = critic_system_prompt ev, req_temperature_tenths = 3,
      req_max_output_tokens = 3000\<rparr>"

text \<open>The text that \<open>criticize_plan\<close> makes of the service's answer.\<close>

definition critique_of :: "outcome \<Rightarrow> ustr" where
  "critique_of out =
     (case out of Returns t \<Rightarrow> or_empty t | Raises e \<Rightarrow> review_failed_marker @ str_exn e)"

definition criticize_plan :: "env \<Rightarrow> service \<Rightarrow> ustr \<Rightarrow> world \<Rightarrow> (exn + ustr) \<times> world" where
  "criticize_plan ev svc plan_content w =
     (case get_client ev w of
        Inl e \<Rightarrow> (Inl e, w)
      | Inr w1 \<Rightarrow>
          (case generate_content svc (critic_request ev plan_content) w1 of
             (Returns t, w2) \<Rightarrow> (Inr (or_empty t), w2)
           | (Raises e, w2) \<Rightarrow> (Inr (review_failed_marker @ str_exn e), w2)))"

subsection \<open>\<open>criticize_plan_with_validation\<close>\<close>

text \<open>\<open>str(n)\<close> for an integer, as the f-string writes the attempt number.\<close>

function str_nat :: "nat \<Rightarrow> ustr" where
  "str_nat n = (if n < 10 then [48 + n] else str_nat (n div 10) @ [48 + n mod 10])"
  by pat_completeness auto
termination
  by (relation "measure id") auto

definition str_int :: "int \<Rightarrow> ustr" where
  "str_int i = (if i < 0 then 45 # str_nat (nat (- i)) else str_nat (nat i))"

definition retry_message :: "ustr \<Rightarrow> int \<Rightarrow> ustr" where
  "retry_message error_msg attempt =
     [9888, 65039, 32, 23529, 26680, 26684, 24335, 19981, 23436, 25972, 65288] @ error_msg @
     [65289, 65292, 27491, 22312, 37325, 35430, 46, 46, 46, 32, 40, 31532, 32] @
     str_int (attempt + 1) @ [32, 27425, 41]"

definition final_message :: "ustr \<Rightarrow> ustr" where
  "final_message error_msg =
     [9888, 65039, 32, 23529, 26680, 22577, 21578, 26684, 24335, 21487, 33021, 19981, 23436,
      25972, 65306] @ error_msg"

text \<open>
  The status callback is optional; a callback is given the text and returns, or raises
  (\<open>Some e\<close>). \<open>notify\<close> is \<open>if status_callback: status_callback(msg)\<close>.
\<close>

type_synonym callback = "(ustr \<Rightarrow> exn option) option"

definition notify :: "callback \<Rightarrow> ustr \<Rightarrow> world \<Rightarrow> exn option \<times> world" where
  "notify cb msg w =
     (case cb of None \<Rightarrow> (None, w) | Some f \<Rightarrow> (f msg, emit (Status msg) w))"

text \<open>
  The loop \<open>for attempt in range(max_retry)\<close>, from \<open>attempt\<close> on; \<open>critique\<close> is
  the variable of that name, unbound (\<open>None\<close>) until the first pass has assigned it.
  After the loop, \<open>return critique\<close> raises \<open>UnboundLocalError\<close> when no pass has run.
\<close>

function cpv_loop :: "env \<Rightarrow> service \<Rightarrow> ustr \<Rightarrow> int \<Rightarrow> callback \<Rightarrow> int \<Rightarrow> ustr option
    \<Rightarrow> world \<Rightarrow> (exn + ustr) \<times> world" where
  "cpv_loop ev svc plan_content max_retry cb attempt critique w =
     (if attempt < max_retry then
        (case criticize_plan ev svc plan_content w of
           (Inl e, w1) \<Rightarrow> (Inl e, w1)
         | (Inr crit, w1) \<Rightarrow>
             (case validate_critique_output crit of
                (True, error_msg) \<Rightarrow> (Inr crit, w1)
              | (False, error_msg) \<Rightarrow>
                  if attempt < max_retry - 1 then
                    (case notify cb (retry_message error_msg attempt) w1 of
                       (Some e, w2) \<Rightarrow> (Inl e, w2)
                     | (None, w2) \<Rightarrow>
                         cpv_loop ev svc plan_content max_retry cb (attempt + 1) (Some crit)
                           (emit (Sleep 1) w2))
                  else
                    (case notify cb (final_message error_msg) w1 of
                       (Some e, w2) \<Rightarrow> (Inl e, w2)
                     | (None, w2) \<Rightarrow> (Inr crit, w2))))
      else
        (case critique of
           None \<Rightarrow> (Inl (Exn UnboundLocalError (ascii ''critique'')), w)
         | Some crit \<Rightarrow> (Inr crit, w)))"
  by pat_completeness auto
termination
  by (relation "measure (\<lambda>(ev, svc, plan_content, max_retry, cb, attempt, critique, w).
        nat (max_retry - attempt))") auto

definition criticize_plan_with_validation ::
    "env \<Rightarrow> service \<Rightarrow> ustr \<Rightarrow> int \<Rightarrow> callback \<Rightarrow> world \<Rightarrow> (exn + ustr) \<times> world" where
  "criticize_plan_with_validation ev svc plan_content max_retry cb w =
     cpv_loop ev svc plan_content max_retry cb 0 None w"

subsection \<open>\<open>run_deep_reflection\<close>\<close>





text \<open>
  Three notions for the statements below: the effects of a run without the status
  texts, a callback that is absent or never raises, and a state in which \<open>get_client\<close>
  succeeds (the client exists already, or the API key is set).
\<close>

definition effects :: "world \<Rightarrow> event list" where
  "effects w = filter (\<lambda>e. \<not> is_status e) (trace w)"

definition quiet :: "callback \<Rightarrow> bool" where
  "quiet cb = (case cb of None \<Rightarrow> True | Some f \<Rightarrow> \<forall>m. f m = None)"

definition client_obtainable :: "env \<Rightarrow> world \<Rightarrow> bool" where
  "client_obtainable ev w = (client_ready w \<or> api_key ev \<noteq> [])"

text \<open>Sample surroundings: an environment with and without an API key, and a fresh state.\<close>

definition env_keyed :: env where
  "env_keyed = \<lparr>api_key = [107], model_name = [109], critic_system_prompt = [],
                 refine_system_prompt = []\<rparr>"


definition world0 :: world where
  "world0 = \<lparr>client_ready = False, trace = []\<rparr>"


section \<open>Export (\<open>core/utils.py\<close>)\<close>

text \<open>\<open>s.replace(old, new)\<close> for an \<open>old\<close> of one character.\<close>

definition replace1 :: "nat \<Rightarrow> ustr \<Rightarrow> ustr \<Rightarrow> ustr" where
  "replace1 old new s = concat (map (\<lambda>c. if c = old then new else [c]) s)"

text \<open>
  The four fixed parts of the HTML template of \<open>convert_markdown_to_html\<close>, between
  which the f-string puts the title, the content with its newlines replaced by
  \<open><br>\<close>, and the text of \<open>time.strftime('%Y-%m-%d %H:%M:%S')\<close>.
\<close>

definition html_part1 :: ustr where
  "html_part1 =
    [10, 60, 33, 68, 79, 67, 84, 89, 80, 69, 32, 104, 116, 109, 108, 62, 10, 60, 104,
     116, 109, 108, 32, 108, 97, 110, 103, 61, 34, 122, 104, 45, 84, 87, 34, 62, 10, 60,
     104, 101, 97, 100, 62, 10, 32, 32, 32, 32, 60, 109, 101, 116, 97, 32, 99, 104, 97,
     114, 115, 101, 116, 61, 34, 85, 84, 70, 45, 56, 34, 62, 10, 32, 32, 32, 32, 60, 109,
     101, 116, 97, 32, 110, 97, 109, 101, 61, 34, 118, 105, 101, 119, 112, 111, 114, 116,
     34, 32, 99, 111, 110, 116, 101, 110, 116, 61, 34, 119, 105, 100, 116, 104, 61, 100,
     101, 118, 105, 99, 101, 45, 119, 105, 100, 116, 104, 44, 32, 105, 110, 105, 116,
     105, 97, 108, 45, 115, 99, 97, 108, 101, 61, 49, 46, 48, 34, 62, 10, 32, 32, 32, 32,
     60, 116, 105, 116, 108, 101, 62]"

definition html_part2 :: ustr where
  "html_part2 =
    [60, 47, 116, 105, 116, 108, 101, 62, 10, 32, 32, 32, 32, 60, 115, 116, 121, 108,
     101, 62, 10, 32, 32, 32, 32, 32, 32, 32, 32, 98, 111, 100, 121, 32, 123, 10, 32, 32,
     32, 32, 32, 32, 32, 32, 32, 32, 32, 32, 102, 111, 110, 116, 45, 102, 97, 109, 105,
     108, 121, 58, 32, 34, 77, 105, 99, 114, 111, 115, 111, 102, 116, 32, 74, 104, 101,
     110, 103, 72, 101, 105, 34, 44, 32, 34, 24494, 36575, 27491, 40657, 39636, 34, 44,
     32, 65, 114, 105, 97, 108, 44, 32, 115, 97, 110, 115, 45, 115, 101, 114, 105, 102,
     59, 10, 32, 32, 32, 32, 32, 32, 32, 32, 32, 32, 32, 32, 109, 97, 120, 45, 119, 105,
     100, 116, 104, 58, 32, 57, 48, 48, 112, 120, 59, 10, 32, 32, 32, 32, 32, 32, 32, 32,
     32, 32, 32, 32, 109, 97, 114, 103, 105, 110, 58, 32, 52, 48, 112, 120, 32, 97, 117,
     116, 111, 59, 10, 32, 32, 32, 32, 32, 32, 32, 32, 32, 32, 32, 32, 112, 97, 100, 100,
     105, 110, 103, 58, 32, 50, 48, 112, 120, 59, 10, 32, 32, 32, 32, 32, 32, 32, 32, 32,
     32, 32, 32, 108, 105, 110, 101, 45, 104, 101, 105, 103, 104, 116, 58, 32, 49, 46,
     56, 59, 10, 32, 32, 32, 32, 32, 32, 32, 32, 32, 32, 32, 32, 99, 111, 108, 111, 114,
     58, 32, 35, 51, 51, 51, 59, 10, 32, 32, 32, 32, 32, 32, 32, 32, 125, 10, 32, 32, 32,
     32, 32, 32, 32, 32, 104, 49, 32, 123, 32, 99, 111, 108, 111, 114, 58, 32, 35, 50,
     99, 51, 101, 53, 48, 59, 32, 98, 111, 114, 100, 101, 114, 45, 98, 111, 116, 116,
     111, 109, 58, 32, 51, 112, 120, 32, 115, 111, 108, 105, 100, 32, 35, 51, 52, 57, 56,
     100, 98, 59, 32, 112, 97, 100, 100, 105, 110, 103, 45, 98, 111, 116, 116, 111, 109,
     58, 32, 49, 48, 112, 120, 59, 32, 125, 10, 32, 32, 32, 32, 32, 32, 32, 32, 104, 50,
     32, 123, 32, 99, 111, 108, 111, 114, 58, 32, 35, 51, 52, 52, 57, 53, 101, 59, 32,
     109, 97, 114, 103, 105, 110, 45, 116, 111, 112, 58, 32, 51, 48, 112, 120, 59, 32,
     98, 111, 114, 100, 101, 114, 45, 108, 101, 102, 116, 58, 32, 52, 112, 120, 32, 115,
     111, 108, 105, 100, 32, 35, 51, 52, 57, 56, 100, 98, 59, 32, 112, 97, 100, 100, 105,
     110, 103, 45, 108, 101, 102, 116, 58, 32, 49, 48, 112, 120, 59, 32, 125, 10, 32, 32,
     32, 32, 32, 32, 32, 32, 104, 51, 32, 123, 32, 99, 111, 108, 111, 114, 58, 32, 35,
     53, 53, 53, 59, 32, 109, 97, 114, 103, 105, 110, 45, 116, 111, 112, 58, 32, 50, 48,
     112, 120, 59, 32, 125, 10, 32, 32, 32, 32, 32, 32, 32, 32, 99, 111, 100, 101, 32,
     123, 10, 32, 32, 32, 32, 32, 32, 32, 32, 32, 32, 32, 32, 98, 97, 99, 107, 103, 114,
     111, 117, 110, 100, 58, 32, 35, 102, 52, 102, 52, 102, 52, 59, 10, 32, 32, 32, 32,
     32, 32, 32, 32, 32, 32, 32, 32, 112, 97, 100, 100, 105, 110, 103, 58, 32, 50, 112,
     120, 32, 54, 112, 120, 59, 10, 32, 32, 32, 32, 32, 32, 32, 32, 32, 32, 32, 32, 98,
     111, 114, 100, 101, 114, 45, 114, 97, 100, 105, 117, 115, 58, 32, 51, 112, 120, 59,
     10, 32, 32, 32, 32, 32, 32, 32, 32, 32, 32, 32, 32, 102, 111, 110, 116, 45, 102, 97,
     109, 105, 108, 121, 58, 32, 34, 67, 111, 110, 115, 111, 108, 97, 115, 34, 44, 32,
     109, 111, 110, 111, 115, 112, 97, 99, 101, 59, 10, 32, 32, 32, 32, 32, 32, 32, 32,
     125, 10, 32, 32, 32, 32, 32, 32, 32, 32, 112, 114, 101, 32, 123, 10, 32, 32, 32, 32,
     32, 32, 32, 32, 32, 32, 32, 32, 98, 97, 99, 107, 103, 114, 111, 117, 110, 100, 58,
     32, 35, 102, 56, 102, 56, 102, 56, 59, 10, 32, 32, 32, 32, 32, 32, 32, 32, 32, 32,
     32, 32, 112, 97, 100, 100, 105, 110, 103, 58, 32, 49, 53, 112, 120, 59, 10, 32, 32,
     32, 32, 32, 32, 32, 32, 32, 32, 32, 32, 98, 111, 114, 100, 101, 114, 45, 114, 97,
     100, 105, 117, 115, 58, 32, 53, 112, 120, 59, 10, 32, 32, 32, 32, 32, 32, 32, 32,
     32, 32, 32, 32, 111, 118, 101, 114, 102, 108, 111, 119, 45, 120, 58, 32, 97, 117,
     116, 111, 59, 10, 32, 32, 32, 32, 32, 32, 32, 32, 32, 32, 32, 32, 98, 111, 114, 100,
     101, 114, 45, 108, 101, 102, 116, 58, 32, 52, 112, 120, 32, 115, 111, 108, 105, 100,
     32, 35, 51, 52, 57, 56, 100, 98, 59, 10, 32, 32, 32, 32, 32, 32, 32, 32, 125, 10,
     32, 32, 32, 32, 32, 32, 32, 32, 116, 97, 98, 108, 101, 32, 123, 10, 32, 32, 32, 32,
     32, 32, 32, 32, 32, 32, 32, 32, 98, 111, 114, 100, 101, 114, 45, 99, 111, 108, 108,
     97, 112, 115, 101, 58, 32, 99, 111, 108, 108, 97, 112, 115, 101, 59, 10, 32, 32, 32,
     32, 32, 32, 32, 32, 32, 32, 32, 32, 119, 105, 100, 116, 104, 58, 32, 49, 48, 48, 37,
     59, 10, 32, 32, 32, 32, 32, 32, 32, 32, 32, 32, 32, 32, 109, 97, 114, 103, 105, 110,
     58, 32, 50, 48, 112, 120, 32, 48, 59, 10, 32, 32, 32, 32, 32, 32, 32, 32, 125, 10,
     32, 32, 32, 32, 32, 32, 32, 32, 116, 104, 44, 32, 116, 100, 32, 123, 10, 32, 32, 32,
     32, 32, 32, 32, 32, 32, 32, 32, 32, 98, 111, 114, 100, 101, 114, 58, 32, 49, 112,
     120, 32, 115, 111, 108, 105, 100, 32, 35, 100, 100, 100, 59, 10, 32, 32, 32, 32, 32,
     32, 32, 32, 32, 32, 32, 32, 112, 97, 100, 100, 105, 110, 103, 58, 32, 49, 50, 112,
     120, 59, 10, 32, 32, 32, 32, 32, 32, 32, 32, 32, 32, 32, 32, 116, 101, 120, 116, 45,
     97, 108, 105, 103, 110, 58, 32, 108, 101, 102, 116, 59, 10, 32, 32, 32, 32, 32, 32,
     32, 32, 125, 10, 32, 32, 32, 32, 32, 32, 32, 32, 116, 104, 32, 123, 10, 32, 32, 32,
     32, 32, 32, 32, 32, 32, 32, 32, 32, 98, 97, 99, 107, 103, 114, 111, 117, 110, 100,
     58, 32, 35, 51, 52, 57, 56, 100, 98, 59, 10, 32, 32, 32, 32, 32, 32, 32, 32, 32, 32,
     32, 32, 99, 111, 108, 111, 114, 58, 32, 119, 104, 105, 116, 101, 59, 10, 32, 32, 32,
     32, 32, 32, 32, 32, 125, 10, 32, 32, 32, 32, 32, 32, 32, 32, 46, 102, 111, 111, 116,
     101, 114, 32, 123, 10, 32, 32, 32, 32, 32, 32, 32, 32, 32, 32, 32, 32, 109, 97, 114,
     103, 105, 110, 45, 116, 111, 112, 58, 32, 53, 48, 112, 120, 59, 10, 32, 32, 32, 32,
     32, 32, 32, 32, 32, 32, 32, 32, 112, 97, 100, 100, 105, 110, 103, 45, 116, 111, 112,
     58, 32, 50, 48, 112, 120, 59, 10, 32, 32, 32, 32, 32, 32, 32, 32, 32, 32, 32, 32,
     98, 111, 114, 100, 101, 114, 45, 116, 111, 112, 58, 32, 49, 112, 120, 32, 115, 111,
     108, 105, 100, 32, 35, 100, 100, 100, 59, 10, 32, 32, 32, 32, 32, 32, 32, 32, 32,
     32, 32, 32, 116, 101, 120, 116, 45, 97, 108, 105, 103, 110, 58, 32, 99, 101, 110,
     116, 101, 114, 59, 10, 32, 32, 32, 32, 32, 32, 32, 32, 32, 32, 32, 32, 99, 111, 108,
     111, 114, 58, 32, 35, 57, 57, 57, 59, 10, 32, 32, 32, 32, 32, 32, 32, 32, 32, 32,
     32, 32, 102, 111, 110, 116, 45, 115, 105, 122, 101, 58, 32, 48, 46, 57, 101, 109,
     59, 10, 32, 32, 32, 32, 32, 32, 32, 32, 125, 10, 32, 32, 32, 32, 60, 47, 115, 116,
     121, 108, 101, 62, 10, 60, 47, 104, 101, 97, 100, 62, 10, 60, 98, 111, 100, 121, 62,
     10]"

definition html_part3 :: ustr where
  "html_part3 =
    [10, 60, 100, 105, 118, 32, 99, 108, 97, 115, 115, 61, 34, 102, 111, 111, 116, 101,
     114, 34, 62, 10, 32, 32, 32, 32, 25991, 27284, 29986, 29983, 26178, 38291, 65306]"

definition html_part4 :: ustr where
  "html_part4 =
    [60, 98, 114, 62, 10, 32, 32, 32, 32, 30001, 32, 80, 82, 68, 32, 83, 116, 117, 100,
     105, 111, 32, 65, 80, 73, 32, 33258, 21205, 29983, 25104, 10, 60, 47, 100, 105, 118,
     62, 10, 60, 47, 98, 111, 100, 121, 62, 10, 60, 47, 104, 116, 109, 108, 62, 10]"

definition convert_markdown_to_html :: "ustr \<Rightarrow> ustr \<Rightarrow> ustr \<Rightarrow> ustr" where
  "convert_markdown_to_html now md_content title =
     html_part1 @ title @ html_part2 @ replace1 10 (ascii ''<br>'') md_content @
     html_part3 @ now @ html_part4"

definition convert_markdown_to_txt :: "ustr \<Rightarrow> ustr" where
  "convert_markdown_to_txt md_content =
     replace1 96 [] (replace1 42 [] (replace1 35 [] md_content))"

text \<open>
  The archive is modelled by its entries in the order written, each a name and the bytes
  stored under it; \<open>ZipFile.writestr\<close> encodes a \<open>str\<close> as UTF-8 first, which can
  raise. \<open>create_prd_zip\<close> reads the clock once for each HTML rendering
  (\<open>now1\<close>, \<open>now2\<close>); the critique is optional, and \<open>if critique_content\<close> skips
  an empty one as well.
\<close>

type_synonym archive = "(ustr \<times> bytes) list"

definition writestr :: "ustr \<Rightarrow> ustr \<Rightarrow> archive \<Rightarrow> exn + archive" where
  "writestr name data zf =
     (case encode data of Inl e \<Rightarrow> Inl e | Inr bs \<Rightarrow> Inr (zf @ [(name, bs)]))"

definition critique_title :: ustr where
  "critique_title = [67, 84, 79, 32, 23529, 26680, 22577, 21578]"

definition create_prd_zip :: "ustr \<Rightarrow> ustr \<Rightarrow> ustr \<Rightarrow> ustr option \<Rightarrow> exn + archive" where
  "create_prd_zip now1 now2 prd_content critique_content =
     (case writestr (ascii ''prd.md'') prd_content [] of
        Inl e \<Rightarrow> Inl e
      | Inr z1 \<Rightarrow>
     (case writestr (ascii ''prd.html'')
              (convert_markdown_to_html now1 prd_content (ascii ''PRD'')) z1 of
        Inl e \<Rightarrow> Inl e
      | Inr z2 \<Rightarrow>
     (case writestr (ascii ''prd.txt'') (convert_markdown_to_txt prd_content) z2 of
        Inl e \<Rightarrow> Inl e
      | Inr z3 \<Rightarrow>
          if or_empty critique_content = [] then Inr z3
          else
            (case writestr (ascii ''critique.md'') (or_empty critique_content) z3 of
               Inl e \<Rightarrow> Inl e
             | Inr z4 \<Rightarrow>
                 writestr (ascii ''critique.html'')
                   (convert_markdown_to_html now2 (or_empty critique_content) critique_title)
                   z4))))"

section \<open>The diff renderer (\<open>core/version_manager.py\<close>)\<close>

subsection \<open>\<open>difflib.SequenceMatcher\<close>\<close>

text \<open>
  \<open>show_diff\<close> calls \<open>difflib.unified_diff\<close> of the standard library, which is
  modelled here after CPython's \<open>difflib.py\<close> as \<open>unified_diff\<close> uses it: no junk
  predicate, \<open>autojunk\<close> on, three lines of context.

  \<open>b2j\<close> maps an element to the indices at which it stands in \<open>b\<close>, in increasing
  order; when \<open>b\<close> has 200 elements or more, an element that stands at more than
  \<open>len(b) // 100 + 1\<close> places is popular and has no entry.
\<close>

definition b2j :: "'a list \<Rightarrow> 'a \<Rightarrow> nat list" where
  "b2j b elt =
     (let indices = filter (\<lambda>j. b ! j = elt) [0..<length b]
      in if 200 \<le> length b \<and> length b div 100 + 1 < length indices then [] else indices)"

text \<open>
  \<open>find_longest_match\<close>. The inner loop runs over the indices \<open>j\<close> of \<open>a[i]\<close> in
  \<open>b\<close>, skips those below \<open>blo\<close>, stops at the first one from \<open>bhi\<close> on, and
  keeps in \<open>newj2len\<close> the length of the match that ends at \<open>a[i]\<close>, \<open>b[j]\<close>;
  the best match changes only for a strictly longer one.
\<close>

type_synonym flm_state = "(nat \<rightharpoonup> nat) \<times> nat \<times> nat \<times> nat"

fun flm_inner :: "(nat \<rightharpoonup> nat) \<Rightarrow> nat \<Rightarrow> nat \<Rightarrow> nat \<Rightarrow> nat list \<Rightarrow> flm_state \<Rightarrow> flm_state" where
  "flm_inner j2len i blo bhi [] st = st"
| "flm_inner j2len i blo bhi (j # js) (newj2len, besti, bestj, bestsize) =
     (if j < blo then flm_inner j2len i blo bhi js (newj2len, besti, bestj, bestsize)
      else if bhi \<le> j then (newj2len, besti, bestj, bestsize)
      else
        (let k = (if j = 0 then 0 else case j2len (j - 1) of None \<Rightarrow> 0 | Some v \<Rightarrow> v) + 1
         in if bestsize < k
            then flm_inner j2len i blo bhi js (newj2len(j \<mapsto> k), i + 1 - k, j + 1 - k, k)
            else flm_inner j2len i blo bhi js (newj2len(j \<mapsto> k), besti, bestj, bestsize)))"

definition flm_row :: "'a list \<Rightarrow> 'a list \<Rightarrow> nat \<Rightarrow> nat \<Rightarrow> nat \<Rightarrow> flm_state \<Rightarrow> flm_state" where
  "flm_row a b blo bhi i st =
     (case st of (j2len, besti, bestj, bestsize) \<Rightarrow>
        flm_inner j2len i blo bhi (b2j b (a ! i)) (Map.empty, besti, bestj, bestsize))"

text \<open>
  The two loops that extend the best match by equal elements on each side. The junk set
  is empty, so the two further loops over junk elements do nothing and are left out.
\<close>

function extend_back :: "'a list \<Rightarrow> 'a list \<Rightarrow> nat \<Rightarrow> nat \<Rightarrow> nat \<Rightarrow> nat \<Rightarrow> nat \<Rightarrow> nat \<times> nat \<times> nat" where
  "extend_back a b alo blo besti bestj bestsize =
     (if alo < besti \<and> blo < bestj \<and> a ! (besti - 1) = b ! (bestj - 1)
      then extend_back a b alo blo (besti - 1) (bestj - 1) (bestsize + 1)
      else (besti, bestj, bestsize))"
  by pat_completeness auto
termination
  by (relation "measure (\<lambda>(a, b, alo, blo, besti, bestj, bestsize). besti)") auto

function extend_fwd :: "'a list \<Rightarrow> 'a list \<Rightarrow> nat \<Rightarrow> nat \<Rightarrow> nat \<Rightarrow> nat \<Rightarrow> nat \<Rightarrow> nat \<times> nat \<times> nat" where
  "extend_fwd a b ahi bhi besti bestj bestsize =
     (if besti + bestsize < ahi \<and> bestj + bestsize < bhi \<and>
         a ! (besti + bestsize) = b ! (bestj + bestsize)
      then extend_fwd a b ahi bhi besti bestj (bestsize + 1)
      else (besti, bestj, bestsize))"
  by pat_completeness auto
termination
  by (relation "measure (\<lambda>(a, b, ahi, bhi, besti, bestj, bestsize). ahi - (besti + bestsize))")
     auto

definition find_longest_match :: "'a list \<Rightarrow> 'a list \<Rightarrow> nat \<Rightarrow> nat \<Rightarrow> nat \<Rightarrow> nat \<Rightarrow> nat \<times> nat \<times> nat" where
  "find_longest_match a b alo ahi blo bhi =
     (case fold (flm_row a b blo bhi) [alo..<ahi] (Map.empty, alo, blo, 0) of
        (j2len, besti, bestj, bestsize) \<Rightarrow>
          (case extend_back a b alo blo besti bestj bestsize of
             (besti, bestj, bestsize) \<Rightarrow> extend_fwd a b ahi bhi besti bestj bestsize))"

text \<open>
  \<open>get_matching_blocks\<close>: the work list \<open>queue\<close> is a Python list used as a stack
  (\<open>append\<close>, \<open>pop\<close> at the end). The loop is written as it stands, with no
  argument here for why it ends: a run that does not end has the value \<open>None\<close>.
\<close>

partial_function (option) mb_loop ::
    "'a list \<Rightarrow> 'a list \<Rightarrow> (nat \<times> nat \<times> nat \<times> nat) list \<Rightarrow> (nat \<times> nat \<times> nat) list
       \<Rightarrow> (nat \<times> nat \<times> nat) list option" where
  "mb_loop a b queue matching_blocks =
     (if queue = [] then Some matching_blocks
      else
        (case last queue of (alo, ahi, blo, bhi) \<Rightarrow>
           (case find_longest_match a b alo ahi blo bhi of (i, j, k) \<Rightarrow>
              if k \<noteq> 0 then
                mb_loop a b
                  (butlast queue @
                   (if alo < i \<and> blo < j then [(alo, i, blo, j)] else []) @
                   (if i + k < ahi \<and> j + k < bhi then [(i + k, ahi, j + k, bhi)] else []))
                  (matching_blocks @ [(i, j, k)])
              else mb_loop a b (butlast queue) matching_blocks)))"

declare mb_loop.simps [code]

text \<open>The blocks are sorted, and adjacent ones are merged; a sentinel block ends the list.\<close>

fun collapse_step :: "nat \<times> nat \<times> nat \<Rightarrow> (nat \<times> nat \<times> nat) \<times> (nat \<times> nat \<times> nat) list
    \<Rightarrow> (nat \<times> nat \<times> nat) \<times> (nat \<times> nat \<times> nat) list" where
  "collapse_step (i2, j2, k2) ((i1, j1, k1), non_adjacent) =
     (if i1 + k1 = i2 \<and> j1 + k1 = j2 then ((i1, j1, k1 + k2), non_adjacent)
      else ((i2, j2, k2), if k1 \<noteq> 0 then non_adjacent @ [(i1, j1, k1)] else non_adjacent))"

definition get_matching_blocks :: "'a list \<Rightarrow> 'a list \<Rightarrow> (nat \<times> nat \<times> nat) list option" where
  "get_matching_blocks a b =
     (case mb_loop a b [(0, length a, 0, length b)] [] of
        None \<Rightarrow> None
      | Some matching_blocks \<Rightarrow>
          (case fold collapse_step (sort matching_blocks) ((0, 0, 0), []) of
             ((i1, j1, k1), non_adjacent) \<Rightarrow>
               Some ((if k1 \<noteq> 0 then non_adjacent @ [(i1, j1, k1)] else non_adjacent) @
                     [(length a, length b, 0)])))"

datatype tag = Replace | Delete | Insert | Equal

type_synonym opcode = "tag \<times> nat \<times> nat \<times> nat \<times> nat"

fun opcode_step :: "nat \<times> nat \<times> nat \<Rightarrow> nat \<times> nat \<times> opcode list \<Rightarrow> nat \<times> nat \<times> opcode list" where
  "opcode_step (ai, bj, sz) (i, j, answer) =
     (let answer =
            (if i < ai \<and> j < bj then answer @ [(Replace, i, ai, j, bj)]
             else if i < ai then answer @ [(Delete, i, ai, j, bj)]
             else if j < bj then answer @ [(Insert, i, ai, j, bj)]
             else answer)
      in (ai + sz, bj + sz,
          if sz \<noteq> 0 then answer @ [(Equal, ai, ai + sz, bj, bj + sz)] else answer))"

definition get_opcodes :: "'a list \<Rightarrow> 'a list \<Rightarrow> opcode list option" where
  "get_opcodes a b =
     (case get_matching_blocks a b of
        None \<Rightarrow> None
      | Some blocks \<Rightarrow> Some (snd (snd (fold opcode_step blocks (0, 0, [])))))"


text \<open>
  \<open>get_grouped_opcodes(n)\<close>: an empty list of opcodes stands for one equal line; a
  leading and a trailing equal range are cut to \<open>n\<close> lines; a long equal range ends
  one group and starts the next; a last group of a single equal range is dropped.
\<close>

fun trim_head :: "nat \<Rightarrow> opcode \<Rightarrow> opcode" where
  "trim_head n (t, i1, i2, j1, j2) =
     (if t = Equal then (t, max i1 (i2 - n), i2, max j1 (j2 - n), j2) else (t, i1, i2, j1, j2))"

fun trim_last :: "nat \<Rightarrow> opcode \<Rightarrow> opcode" where
  "trim_last n (t, i1, i2, j1, j2) =
     (if t = Equal then (t, i1, min i2 (i1 + n), j1, min j2 (j1 + n)) else (t, i1, i2, j1, j2))"

fun group_step :: "nat \<Rightarrow> opcode \<Rightarrow> opcode list \<times> opcode list list \<Rightarrow> opcode list \<times> opcode list list" where
  "group_step n (t, i1, i2, j1, j2) (grp, groups) =
     (if t = Equal \<and> n + n < i2 - i1
      then ([(t, max i1 (i2 - n), i2, max j1 (j2 - n), j2)],
            groups @ [grp @ [(t, i1, min i2 (i1 + n), j1, min j2 (j1 + n))]])
      else (grp @ [(t, i1, i2, j1, j2)], groups))"

definition get_grouped_opcodes :: "nat \<Rightarrow> opcode list \<Rightarrow> opcode list list" where
  "get_grouped_opcodes n opcodes =
     (let codes = (if opcodes = [] then [(Equal, 0, 1, 0, 1)] else opcodes);
          codes = codes[0 := trim_head n (codes ! 0)];
          codes = codes[length codes - 1 := trim_last n (codes ! (length codes - 1))]
      in case fold (group_step n) codes ([], []) of
           (grp, groups) \<Rightarrow>
             if grp \<noteq> [] \<and> \<not> (length grp = 1 \<and> fst (grp ! 0) = Equal) then groups @ [grp]
             else groups)"

subsection \<open>\<open>difflib.unified_diff\<close>\<close>

definition format_range_unified :: "nat \<Rightarrow> nat \<Rightarrow> ustr" where
  "format_range_unified start stop =
     (let beginning = start + 1; len = stop - start
      in if len = 1 then str_nat beginning
         else str_nat (if len = 0 then beginning - 1 else beginning) @ [0x2C] @ str_nat len)"

text \<open>\<open>xs[i1:i2]\<close>.\<close>

definition slice :: "'a list \<Rightarrow> nat \<Rightarrow> nat \<Rightarrow> 'a list" where
  "slice xs i1 i2 = take (i2 - i1) (drop i1 xs)"

fun opcode_lines :: "ustr list \<Rightarrow> ustr list \<Rightarrow> opcode \<Rightarrow> ustr list" where
  "opcode_lines a b (t, i1, i2, j1, j2) =
     (if t = Equal then map (\<lambda>line. 0x20 # line) (slice a i1 i2)
      else (if t = Replace \<or> t = Delete then map (\<lambda>line. 0x2D # line) (slice a i1 i2) else []) @
           (if t = Replace \<or> t = Insert then map (\<lambda>line. 0x2B # line) (slice b j1 j2) else []))"

definition group_lines :: "ustr list \<Rightarrow> ustr list \<Rightarrow> ustr \<Rightarrow> opcode list \<Rightarrow> ustr list" where
  "group_lines a b lineterm grp =
     (case (grp ! 0, last grp) of
        ((t1, f1, f2, f3, f4), (t2, l1, l2, l3, l4)) \<Rightarrow>
          (ascii ''@@ -'' @ format_range_unified f1 l2 @ ascii '' +'' @
             format_range_unified f3 l4 @ ascii '' @@'' @ lineterm) #
          concat (map (opcode_lines a b) grp))"

text \<open>
  \<open>unified_diff(a, b, fromfile, tofile, lineterm=lineterm)\<close> with no file dates: the
  two header lines come before the first group, and nothing at all when there is no
  group.
\<close>

definition unified_diff :: "ustr list \<Rightarrow> ustr list \<Rightarrow> ustr \<Rightarrow> ustr \<Rightarrow> ustr \<Rightarrow> ustr list option" where
  "unified_diff a b fromfile tofile lineterm =
     (case get_opcodes a b of
        None \<Rightarrow> None
      | Some opcodes \<Rightarrow>
          (let groups = get_grouped_opcodes 3 opcodes
           in Some (if groups = [] then []
                    else [ascii ''--- '' @ fromfile @ lineterm, ascii ''+++ '' @ tofile @ lineterm] @
                         concat (map (group_lines a b lineterm) groups))))"

subsection \<open>\<open>show_diff\<close>\<close>

text \<open>\<open>s.splitlines(keepends=True)\<close>, with every line boundary that \<open>str\<close> knows.\<close>

definition is_linebreak :: "nat \<Rightarrow> bool" where
  "is_linebreak c = (c \<in> set [0xA, 0xB, 0xC, 0xD, 0x1C, 0x1D, 0x1E, 0x85, 0x2028, 0x2029])"

fun splitlines_from :: "ustr \<Rightarrow> ustr \<Rightarrow> ustr list" where
  "splitlines_from cur [] = (if cur = [] then [] else [rev cur])"
| "splitlines_from cur [c] = [rev (c # cur)]"
| "splitlines_from cur (c # d # cs) =
     (if c = 0xD \<and> d = 0xA then rev (d # c # cur) # splitlines_from [] cs
      else if is_linebreak c then rev (c # cur) # splitlines_from [] (d # cs)
      else splitlines_from (c # cur) (d # cs))"

definition splitlines :: "ustr \<Rightarrow> ustr list" where
  "splitlines s = splitlines_from [] s"

text \<open>\<open>s.split(sep)\<close> for a separator of one character.\<close>

fun split_on :: "nat \<Rightarrow> ustr \<Rightarrow> ustr list" where
  "split_on sep [] = [[]]"
| "split_on sep (c # cs) =
     (if c = sep then [] # split_on sep cs
      else (case split_on sep cs of [] \<Rightarrow> [[c]] | l # ls \<Rightarrow> (c # l) # ls))"

definition old_version_label :: ustr where "old_version_label = [33290, 29256, 26412]"
definition new_version_label :: ustr where "new_version_label = [26032, 29256, 26412]"

definition no_difference_marker :: ustr where
  "no_difference_marker = [9898, 32, 20841, 20491, 29256, 26412, 20839, 23481, 30456, 21516]"

definition span_header :: ustr where
  \<open>span_header = ascii ''<span style="color: #888;">''\<close>

definition span_addition :: ustr where
  \<open>span_addition = ascii ''<span style="color: #2ed573; background: rgba(46,213,115,0.1);">''\<close>

definition span_removal :: ustr where
  \<open>span_removal = ascii ''<span style="color: #ff4757; background: rgba(255,71,87,0.1);">''\<close>

definition span_hunk :: ustr where
  \<open>span_hunk = ascii ''<span style="color: #5352ed;">''\<close>

definition pre_open :: ustr where
  \<open>pre_open = ascii ''<pre style="background: #1e1e1e; padding: 1rem; border-radius: 8px; overflow-x: auto; font-size: 0.85rem;">''\<close>

definition html_escape :: "ustr \<Rightarrow> ustr" where
  "html_escape line =
     replace1 0x3E (ascii ''&gt;'') (replace1 0x3C (ascii ''&lt;'')
       (replace1 0x26 (ascii ''&amp;'') line))"

definition render_line :: "ustr \<Rightarrow> ustr" where
  "render_line line =
     (let escaped_line = html_escape line
      in if prefix (ascii ''+++'') line \<or> prefix (ascii ''---'') line
           then span_header @ escaped_line @ ascii ''</span>''
         else if prefix (ascii ''+'') line
           then span_addition @ escaped_line @ ascii ''</span>''
         else if prefix (ascii ''-'') line
           then span_removal @ escaped_line @ ascii ''</span>''
         else if prefix (ascii ''@@'') line
           then span_hunk @ escaped_line @ ascii ''</span>''
         else escaped_line)"

definition render_diff :: "ustr list \<Rightarrow> ustr" where
  "render_diff diff =
     (let diff_text = join [0xA] diff
      in if diff_text = [] then no_difference_marker
         else pre_open @ join [0xA] (map render_line (split_on 0xA diff_text)) @
              ascii ''</pre>'')"

definition show_diff :: "ustr \<Rightarrow> ustr \<Rightarrow> ustr option" where
  "show_diff old_content new_content =
     (case unified_diff (splitlines old_content) (splitlines new_content)
             old_version_label new_version_label [] of
        None \<Rightarrow> None
      | Some diff \<Rightarrow> Some (render_diff diff))"

section \<open>Properties of the version store\<close>

lemma word_le_length: "length (word_le w) = 4"
  by (simp add: word_le_def)

lemma md5_digest_length: "length (md5_digest m) = 16"
  by (simp add: md5_digest_def Let_def word_le_length split: prod.split)

lemma hex_digit_is_hex: "n < 16 \<Longrightarrow> is_hex_digit (hex_digit n)"
  by (simp add: hex_digit_def is_hex_digit_def)

lemma hexdigest_length: "length (hexdigest bs) = 2 * length bs"
  by (induction bs) (simp_all add: hexdigest_def)

lemma hexdigest_hex: "list_all is_hex_digit (hexdigest bs)"
  by (induction bs) (simp_all add: hexdigest_def hex_digit_is_hex)

lemma md5_hexdigest_length: "length (md5_hexdigest m) = 32"
  by (simp add: md5_hexdigest_def hexdigest_length md5_digest_length)

lemma md5_hexdigest_hex: "list_all is_hex_digit (md5_hexdigest m)"
  by (simp add: md5_hexdigest_def hexdigest_hex)

lemma list_all_take: "list_all P xs \<Longrightarrow> list_all P (take n xs)"
  by (auto simp: list_all_iff dest: in_set_takeD)

lemma save_version_raises:
  "\<not> list_all encodable cont \<Longrightarrow> \<exists>e. save_version now vs ty cont vn = Inl e"
  by (simp add: save_version_def encode_def)

lemma save_version_dup:
  "list_all encodable cont \<Longrightarrow> vs \<noteq> [] \<Longrightarrow> content (last vs) = cont \<Longrightarrow>
     save_version now vs ty cont vn = Inr (False, vs)"
  by (simp add: save_version_def encode_def)

lemma save_version_new:
  "list_all encodable cont \<Longrightarrow> \<not> (vs \<noteq> [] \<and> content (last vs) = cont) \<Longrightarrow>
     save_version now vs ty cont vn =
       Inr (True, vs @ [\<lparr>timestamp = now, vtype = ty, content = cont, vnote = vn,
                         hash = take 8 (md5_hexdigest (concat (map utf8_char cont))),
                         word_count = length cont, version_number = length vs + 1\<rparr>])"
  by (auto simp: save_version_def encode_def)

lemma save_version_keeps_inv:
  assumes inv: "numbered vs" "no_adjacent_dup vs"
    and res: "save_version now vs ty cont vn = Inr (saved, vs')"
  shows "numbered vs' \<and> no_adjacent_dup vs'"
proof (cases "list_all encodable cont")
  case False
  with res show ?thesis by (simp add: save_version_def encode_def)
next
  case enc: True
  show ?thesis
  proof (cases "vs \<noteq> [] \<and> content (last vs) = cont")
    case True
    with enc res have "vs' = vs" by (simp add: save_version_dup)
    with inv show ?thesis by simp
  next
    case False
    define v where "v = \<lparr>timestamp = now, vtype = ty, content = cont, vnote = vn,
                          hash = take 8 (md5_hexdigest (concat (map utf8_char cont))),
                          word_count = length cont, version_number = length vs + 1\<rparr>"
    from enc False res have vs': "vs' = vs @ [v]"
      by (simp add: save_version_new v_def)
    have num: "numbered (vs @ [v])"
      using inv(1) by (auto simp: numbered_def nth_append v_def)
    have "content ((vs @ [v]) ! i) \<noteq> content ((vs @ [v]) ! Suc i)"
      if i: "Suc i < length (vs @ [v])" for i
    proof (cases "Suc i < length vs")
      case True
      with inv(2) show ?thesis by (simp add: no_adjacent_dup_def nth_append)
    next
      case last: False
      with i have eq: "Suc i = length vs" by simp
      then have ne: "vs \<noteq> []" by auto
      from eq have "i = length vs - 1" "i < length vs" by simp_all
      with ne have "(vs @ [v]) ! i = last vs"
        by (simp add: nth_append last_conv_nth)
      moreover from eq have "(vs @ [v]) ! Suc i = v" by simp
      moreover from False ne have "content (last vs) \<noteq> cont" by simp
      ultimately show ?thesis by (simp add: v_def)
    qed
    then have "no_adjacent_dup (vs @ [v])" by (simp add: no_adjacent_dup_def)
    with num vs' show ?thesis by simp
  qed
qed

lemma run_saves_keeps_inv:
  "numbered vs \<Longrightarrow> no_adjacent_dup vs \<Longrightarrow>
     numbered (run_saves vs cs) \<and> no_adjacent_dup (run_saves vs cs)"
proof (induction cs arbitrary: vs)
  case Nil
  then show ?case by simp
next
  case (Cons c cs)
  obtain now ty cont vn where c: "c = (now, ty, cont, vn)" by (cases c) auto
  show ?case
  proof (cases "save_version now vs ty cont vn")
    case (Inl e)
    with c Cons show ?thesis by simp
  next
    case (Inr r)
    obtain saved vs' where r: "r = (saved, vs')" by (cases r) auto
    from save_version_keeps_inv [OF Cons.prems] Inr r
    have "numbered vs' \<and> no_adjacent_dup vs'" by blast
    with Cons.IH [of vs'] c Inr r show ?thesis by simp
  qed
qed

text \<open>
  C1, as amended. For every versions list and every content that UTF-8 can encode
  (no surrogate code point): when the list is non-empty and the last record's content
  equals the new content, \<open>save_version\<close> returns \<open>False\<close> and the list is
  unchanged; otherwise it returns \<open>True\<close> and appends exactly one record, whose
  \<open>version_number\<close> is the new length, whose \<open>content\<close> is the given one, and whose
  \<open>hash\<close> is the first 8 characters of the hexadecimal MD5 digest of the encoded
  content: 8 hexadecimal digits. The decision reads the content only, never the hash.
\<close>

theorem save_version_dedup_or_append:
  assumes enc: "list_all encodable cont"
  shows "(vs \<noteq> [] \<and> content (last vs) = cont \<longrightarrow>
            save_version now vs ty cont vn = Inr (False, vs)) \<and>
         (\<not> (vs \<noteq> [] \<and> content (last vs) = cont) \<longrightarrow>
            (\<exists>v. save_version now vs ty cont vn = Inr (True, vs @ [v]) \<and>
                 version_number v = length (vs @ [v]) \<and> content v = cont \<and>
                 hash v = take 8 (md5_hexdigest (concat (map utf8_char cont))) \<and>
                 length (hash v) = 8 \<and> list_all is_hex_digit (hash v)))"
proof (intro conjI impI)
  assume "vs \<noteq> [] \<and> content (last vs) = cont"
  with enc show "save_version now vs ty cont vn = Inr (False, vs)"
    by (simp add: save_version_dup)
next
  assume new: "\<not> (vs \<noteq> [] \<and> content (last vs) = cont)"
  let ?v = "\<lparr>timestamp = now, vtype = ty, content = cont, vnote = vn,
             hash = take 8 (md5_hexdigest (concat (map utf8_char cont))),
             word_count = length cont, version_number = length vs + 1\<rparr>"
  have "save_version now vs ty cont vn = Inr (True, vs @ [?v])"
    using enc new by (rule save_version_new)
  moreover have "length (hash ?v) = 8"
    by (simp add: md5_hexdigest_length)
  moreover have "list_all is_hex_digit (hash ?v)"
    by (simp add: list_all_take md5_hexdigest_hex)
  ultimately show "\<exists>v. save_version now vs ty cont vn = Inr (True, vs @ [v]) \<and>
       version_number v = length (vs @ [v]) \<and> content v = cont \<and>
       hash v = take 8 (md5_hexdigest (concat (map utf8_char cont))) \<and>
       length (hash v) = 8 \<and> list_all is_hex_digit (hash v)"
    by (intro exI [of _ ?v]) simp
qed

theorem save_version_dedup_or_append_witness:
  "save_version [50, 48] [] [109] [97, 98, 99] [] =
     Inr (True, [\<lparr>timestamp = [50, 48], vtype = [109], content = [97, 98, 99], vnote = [],
                  hash = take 8 (md5_hexdigest [97, 98, 99]), word_count = 3,
                  version_number = 1\<rparr>]) \<and>
   length (take 8 (md5_hexdigest [97, 98, 99])) = 8"
  using save_version_dedup_or_append [of "[97, 98, 99]" "[]" "[50, 48]" "[109]" "[]"]
  by (auto simp: save_version_def encode_def encodable_def utf8_char_def)

text \<open>
  The claim as first stated, for every content string, fails: a \<open>str\<close> holding a lone
  surrogate cannot be hashed, and \<open>save_version\<close> raises \<open>UnicodeEncodeError\<close>
  instead of returning either flag, even when that content equals the last record's.
\<close>

theorem save_version_surrogate_counterexample:
  "save_version [] [\<lparr>timestamp = [], vtype = [], content = [0xD800], vnote = [], hash = [],
                     word_count = 1, version_number = 1\<rparr>] [] [0xD800] [] =
     Inl (Exn UnicodeEncodeError (ascii ''surrogates not allowed''))"
  by (simp add: save_version_def encode_def encodable_def)

text \<open>
  C2. Starting from an empty list, after any sequence of \<open>save_version\<close> calls the
  i-th record (counted from 1) has \<open>version_number\<close> i, and no two adjacent records
  have the same content. The sequence is arbitrary, so this holds at every point of
  a session.
\<close>

theorem run_saves_numbered_no_dup:
  "numbered (run_saves [] calls) \<and> no_adjacent_dup (run_saves [] calls)"
  by (rule run_saves_keeps_inv) (simp_all add: numbered_def no_adjacent_dup_def)

theorem run_saves_numbered_no_dup_witness:
  "map version_number
     (run_saves [] [([], [], [97], []), ([], [], [97], []), ([], [], [98], [])]) = [1, 2] \<and>
   map content
     (run_saves [] [([], [], [97], []), ([], [], [97], []), ([], [], [98], [])]) = [[97], [98]] \<and>
   numbered (run_saves [] [([], [], [97], []), ([], [], [97], []), ([], [], [98], [])])"
  using run_saves_numbered_no_dup [of "[([], [], [97], []), ([], [], [97], []), ([], [], [98], [])]"]
  by (simp add: save_version_def encode_def encodable_def utf8_char_def)

section \<open>Properties of the critique validator\<close>

lemma str_in_sublist: "str_in sub s \<longleftrightarrow> sublist sub s"
  by (induction s) (simp_all add: sublist_Cons_right)

lemma m_lit_iff: "r \<in> set (m_lit p s) \<longleftrightarrow> s = p @ r"
  by (auto simp: m_lit_def prefix_def)

lemma m_class_iff: "r \<in> set (m_class P s) \<longleftrightarrow> (\<exists>c. P c \<and> s = c # r)"
  by (auto simp: m_class_def split: list.splits)

lemma m_star_iff: "r \<in> set (m_star P s) \<longleftrightarrow> (\<exists>ws. list_all P ws \<and> s = ws @ r)"
proof (induction s)
  case Nil
  then show ?case by auto
next
  case (Cons c cs)
  show ?case
  proof
    assume "r \<in> set (m_star P (c # cs))"
    then consider "P c" "r \<in> set (m_star P cs)" | "r = c # cs"
      by (auto split: if_splits)
    then show "\<exists>ws. list_all P ws \<and> c # cs = ws @ r"
    proof cases
      case 1
      with Cons obtain ws where "list_all P ws" "cs = ws @ r" by auto
      with 1 have "list_all P (c # ws) \<and> c # cs = (c # ws) @ r" by simp
      then show ?thesis by blast
    next
      case 2
      then have "list_all P [] \<and> c # cs = [] @ r" by simp
      then show ?thesis by blast
    qed
  next
    assume "\<exists>ws. list_all P ws \<and> c # cs = ws @ r"
    then obtain ws where ws: "list_all P ws" "c # cs = ws @ r" by blast
    show "r \<in> set (m_star P (c # cs))"
    proof (cases ws)
      case Nil
      with ws show ?thesis by auto
    next
      case (Cons w ws')
      with ws have "P c" "list_all P ws'" "cs = ws' @ r" by auto
      with Cons.IH show ?thesis by auto
    qed
  qed
qed

lemma m_plus_iff:
  "r \<in> set (m_plus P s) \<longleftrightarrow> (\<exists>ws. ws \<noteq> [] \<and> list_all P ws \<and> s = ws @ r)"
proof
  assume "r \<in> set (m_plus P s)"
  then obtain c cs where s: "s = c # cs" "P c" "r \<in> set (m_star P cs)"
    by (auto simp: m_plus_def split: list.splits if_splits)
  then obtain ws where "list_all P ws" "cs = ws @ r" by (auto simp: m_star_iff)
  with s have "c # ws \<noteq> [] \<and> list_all P (c # ws) \<and> s = (c # ws) @ r" by simp
  then show "\<exists>ws. ws \<noteq> [] \<and> list_all P ws \<and> s = ws @ r" by blast
next
  assume "\<exists>ws. ws \<noteq> [] \<and> list_all P ws \<and> s = ws @ r"
  then obtain w ws where "list_all P (w # ws)" "s = (w # ws) @ r"
    by (metis list.exhaust)
  then show "r \<in> set (m_plus P s)"
    by (auto simp: m_plus_def m_star_iff)
qed

lemma m_seq_iff: "r \<in> set (m_seq p q s) \<longleftrightarrow> (\<exists>m. m \<in> set (p s) \<and> r \<in> set (q m))"
  by (auto simp: m_seq_def)

lemma re_search_iff: "re_search m t \<longleftrightarrow> (\<exists>pre s. t = pre @ s \<and> m s \<noteq> [])"
proof (induction t)
  case Nil
  then show ?case by simp
next
  case (Cons c cs)
  show ?case
  proof
    assume "re_search m (c # cs)"
    then consider "m (c # cs) \<noteq> []" | "re_search m cs" by auto
    then show "\<exists>pre s. c # cs = pre @ s \<and> m s \<noteq> []"
    proof cases
      case 1
      then have "c # cs = [] @ (c # cs) \<and> m (c # cs) \<noteq> []" by simp
      then show ?thesis by blast
    next
      case 2
      with Cons obtain pre s where "cs = pre @ s" "m s \<noteq> []" by blast
      then have "c # cs = (c # pre) @ s \<and> m s \<noteq> []" by simp
      then show ?thesis by blast
    qed
  next
    assume "\<exists>pre s. c # cs = pre @ s \<and> m s \<noteq> []"
    then obtain pre s where ps: "c # cs = pre @ s" "m s \<noteq> []" by blast
    show "re_search m (c # cs)"
    proof (cases pre)
      case Nil
      with ps have "m (c # cs) \<noteq> []" by simp
      then show ?thesis by simp
    next
      case (Cons p pre')
      with ps have "cs = pre' @ s" by simp
      with ps(2) Cons.IH show ?thesis by auto
    qed
  qed
qed

lemma score_pattern_iff:
  "r \<in> set (score_pattern s) \<longleftrightarrow>
     (\<exists>colon ws1 ds ws2 ws3.
        s = sec_score @ [colon] @ ws1 @ ds @ ws2 @ [0x2F] @ ws3 @ [0x31, 0x30, 0x30] @ r \<and>
        is_colon colon \<and> list_all re_space ws1 \<and> ds \<noteq> [] \<and> list_all re_digit ds \<and>
        list_all re_space ws2 \<and> list_all re_space ws3)"
  unfolding score_pattern_def m_seq_iff m_lit_iff m_class_iff m_star_iff m_plus_iff
  by (simp, blast)

lemma re_search_score: "re_search score_pattern t \<longleftrightarrow> has_score t"
proof -
  have "score_pattern s \<noteq> [] \<longleftrightarrow> (\<exists>r. r \<in> set (score_pattern s))" for s
    by (cases "score_pattern s") auto
  then show ?thesis
    unfolding re_search_iff has_score_def score_pattern_iff
    by (simp, blast)
qed

lemmas eval_validate = validate_critique_output_def Let_def required_sections_def
  sec_overall_def sec_score_def sec_passed_def sec_failed_def sec_next_def
  score_pattern_def m_seq_def m_lit_def m_class_def m_plus_def is_colon_def
  re_space_def re_digit_def digit_ranges_def score_format_marker_def missing_prefix_def

text \<open>
  C5. \<open>validate_critique_output\<close> returns \<open>(True, "")\<close> exactly when all five
  section labels occur in the text as substrings and the score pattern matches
  somewhere in it. Otherwise it returns \<open>False\<close> with a reason that lists, after its
  fixed prefix and joined by a comma and a space, every missing label in the order of
  the list and then, exactly when the score pattern is absent, the score-format
  marker: every check is made and none hides another.
\<close>

theorem validate_critique_output_spec:
  "validate_critique_output t =
     (if (\<forall>s \<in> set required_sections. sublist s t) \<and> has_score t then (True, [])
      else (False, missing_prefix @ join [0x2C, 0x20]
              (filter (\<lambda>s. \<not> sublist s t) required_sections @
               (if has_score t then [] else [score_format_marker]))))"
  by (simp add: validate_critique_output_def Let_def str_in_sublist re_search_score
      filter_empty_conv)

theorem validate_critique_output_spec_witness:
  "validate_critique_output critique_87 = (True, []) \<and>
   list_all (\<lambda>s. sublist s critique_87) required_sections \<and> has_score critique_87 \<and>
   validate_critique_output (sec_overall @ [10] @ sec_failed @ sec_next) =
     (False, missing_prefix @ sec_score @ [0x2C, 0x20] @ score_format_marker)"
proof -
  have v: "validate_critique_output critique_87 = (True, [])"
    by (simp add: critique_87_def eval_validate)
  with validate_critique_output_spec [of critique_87]
  have "(\<forall>s \<in> set required_sections. sublist s critique_87) \<and> has_score critique_87"
    by (auto split: if_splits)
  moreover have "validate_critique_output (sec_overall @ [10] @ sec_failed @ sec_next) =
      (False, missing_prefix @ sec_score @ [0x2C, 0x20] @ score_format_marker)"
    by (simp add: eval_validate)
  ultimately show ?thesis using v by (simp add: list_all_iff)
qed

text \<open>
  C6. The validator does not check the range of the score: a critique with all five
  section labels and the score line \<open><score label>: 150/100\<close> is accepted with an
  empty reason.
\<close>

theorem validate_accepts_150:
  "critique_150 = sec_overall @ [10] @ sec_score @ [0x3A, 0x20] @ [0x31, 0x35, 0x30] @
       [0x2F, 0x31, 0x30, 0x30] @ [10] @ sec_passed @ [10] @ sec_failed @ [10] @ sec_next \<and>
   validate_critique_output critique_150 = (True, [])"
  by (simp add: critique_150_def eval_validate)

section \<open>Properties of the critique engine and the deep review\<close>

lemma n_calls_emit [simp]:
  "n_calls (emit (Generate r) w) = Suc (n_calls w)"
  "n_calls (emit (Sleep k) w) = n_calls w"
  "n_calls (emit (Status m) w) = n_calls w"
  "n_calls (w\<lparr>client_ready := b\<rparr>) = n_calls w"
  by (simp_all add: n_calls_def emit_def)

lemma effects_emit [simp]:
  "effects (emit (Generate r) w) = effects w @ [Generate r]"
  "effects (emit (Sleep k) w) = effects w @ [Sleep k]"
  "effects (emit (Status m) w) = effects w"
  "effects (w\<lparr>client_ready := b\<rparr>) = effects w"
  by (simp_all add: effects_def emit_def)

lemma client_ready_emit [simp]: "client_ready (emit e w) = client_ready w"
  by (simp add: emit_def)

lemma get_client_ok:
  "client_obtainable ev w \<Longrightarrow> get_client ev w = Inr (w\<lparr>client_ready := True\<rparr>)"
  by (cases w) (auto simp: get_client_def client_obtainable_def)

lemma get_client_fails:
  "\<not> client_obtainable ev w \<Longrightarrow> get_client ev w = Inl (Exn ValueError key_missing_message)"
  by (simp add: get_client_def client_obtainable_def)

lemma criticize_plan_ok:
  "client_obtainable ev w \<Longrightarrow>
     criticize_plan ev svc plan w =
       (Inr (critique_of (svc (n_calls w) (critic_request ev plan))),
        emit (Generate (critic_request ev plan)) (w\<lparr>client_ready := True\<rparr>))"
  by (simp add: criticize_plan_def get_client_ok generate_content_def critique_of_def
      split: outcome.split)

lemma trace_emit [simp]: "trace (emit e w) = trace w @ [e]"
  by (simp add: emit_def)

lemma notify_quiet:
  "quiet cb \<Longrightarrow> \<exists>w'. notify cb m w = (None, w') \<and> effects w' = effects w \<and>
     n_calls w' = n_calls w \<and> client_ready w' = client_ready w \<and> (cb = None \<longrightarrow> w' = w)"
  by (cases cb) (auto simp: notify_def quiet_def)

lemma cpv_loop_all_invalid:
  assumes inv: "\<And>n. \<not> fst (validate_critique_output (critique_of (svc n (critic_request ev plan))))"
    and q: "quiet cb"
  shows "client_obtainable ev w \<Longrightarrow> nat (max_retry - attempt) = Suc k \<Longrightarrow>
     \<exists>w'. cpv_loop ev svc plan max_retry cb attempt crit0 w =
            (Inr (critique_of (svc (n_calls w + k) (critic_request ev plan))), w') \<and>
          client_ready w' \<and> n_calls w' = n_calls w + Suc k \<and>
          effects w' = effects w @ Generate (critic_request ev plan) #
             concat (replicate k [Sleep 1, Generate (critic_request ev plan)]) \<and>
          (cb = None \<longrightarrow> trace w' = trace w @ Generate (critic_request ev plan) #
             concat (replicate k [Sleep 1, Generate (critic_request ev plan)]))"
proof (induction k arbitrary: attempt crit0 w)
  case 0
  let ?req = "critic_request ev plan"
  let ?c = "critique_of (svc (n_calls w) ?req)"
  let ?w1 = "emit (Generate ?req) (w\<lparr>client_ready := True\<rparr>)"
  from 0 have lt: "attempt < max_retry" and last: "\<not> attempt < max_retry - 1" by auto
  from inv [of "n_calls w"] obtain msg where v: "validate_critique_output ?c = (False, msg)"
    by (cases "validate_critique_output ?c") auto
  from notify_quiet [OF q, of "final_message msg" ?w1]
  obtain w' where n: "notify cb (final_message msg) ?w1 = (None, w')"
    "effects w' = effects ?w1" "n_calls w' = n_calls ?w1" "client_ready w' = client_ready ?w1"
    "cb = None \<longrightarrow> w' = ?w1"
    by blast
  have "cpv_loop ev svc plan max_retry cb attempt crit0 w = (Inr ?c, w')"
    by (subst cpv_loop.simps) (simp add: lt last criticize_plan_ok [OF 0(1)] v n(1))
  with n show ?case by auto
next
  case (Suc k)
  let ?req = "critic_request ev plan"
  let ?c = "critique_of (svc (n_calls w) ?req)"
  let ?w1 = "emit (Generate ?req) (w\<lparr>client_ready := True\<rparr>)"
  from Suc.prems have lt: "attempt < max_retry" and more: "attempt < max_retry - 1" by auto
  from inv [of "n_calls w"] obtain msg where v: "validate_critique_output ?c = (False, msg)"
    by (cases "validate_critique_output ?c") auto
  from notify_quiet [OF q, of "retry_message msg attempt" ?w1]
  obtain w2 where n: "notify cb (retry_message msg attempt) ?w1 = (None, w2)"
    "effects w2 = effects ?w1" "n_calls w2 = n_calls ?w1" "client_ready w2 = client_ready ?w1"
    "cb = None \<longrightarrow> w2 = ?w1"
    by blast
  let ?w3 = "emit (Sleep 1) w2"
  have step: "cpv_loop ev svc plan max_retry cb attempt crit0 w =
      cpv_loop ev svc plan max_retry cb (attempt + 1) (Some ?c) ?w3"
    by (subst cpv_loop.simps) (simp add: lt more criticize_plan_ok [OF Suc.prems(1)] v n(1))
  have ob: "client_obtainable ev ?w3" using n(4) by (simp add: client_obtainable_def)
  from Suc.prems have m: "nat (max_retry - (attempt + 1)) = Suc k" by auto
  from Suc.IH [OF ob m, of "Some ?c"] obtain w' where
    r: "cpv_loop ev svc plan max_retry cb (attempt + 1) (Some ?c) ?w3 =
          (Inr (critique_of (svc (n_calls ?w3 + k) ?req)), w')"
       "client_ready w'" "n_calls w' = n_calls ?w3 + Suc k"
       "effects w' = effects ?w3 @ Generate ?req # concat (replicate k [Sleep 1, Generate ?req])"
       "cb = None \<longrightarrow> trace w' = trace ?w3 @ Generate ?req #
           concat (replicate k [Sleep 1, Generate ?req])"
    by blast
  from step r n show ?case by auto
qed



lemma quiet_None: "quiet None"
  by (simp add: quiet_def)

lemma client_obtainable_keyed: "client_obtainable env_keyed world0"
  by (simp add: client_obtainable_def env_keyed_def)

lemma n_calls_world0: "n_calls world0 = 0"
  by (simp add: n_calls_def world0_def)

lemma trace_world0: "trace world0 = []"
  by (simp add: world0_def)


lemma validate_x: "validate_critique_output [120] = (False, missing_prefix @
    join [0x2C, 0x20] (required_sections @ [score_format_marker]))"
  by (simp add: eval_validate)



text \<open>
  C4. Given a client (the key is set or the client exists) and a service whose every
  answer is a text that fails validation, \<open>criticize_plan_with_validation(document,
  max_retry=2)\<close>, called without a callback, makes exactly two generation calls with
  one \<open>sleep(1)\<close> between them and nothing else, and returns the text of the second
  answer as it is; it does not raise.
\<close>

theorem cpv_always_invalid_two_calls:
  assumes ob: "client_obtainable ev w"
    and bad: "\<forall>n r. \<exists>t. svc n r = Returns t \<and> \<not> fst (validate_critique_output (or_empty t))"
  shows "\<exists>t1 t2 w'. svc (n_calls w) (critic_request ev doc) = Returns t1 \<and>
      svc (n_calls w + 1) (critic_request ev doc) = Returns t2 \<and>
      criticize_plan_with_validation ev svc doc 2 None w = (Inr (or_empty t2), w') \<and>
      trace w' = trace w @
        [Generate (critic_request ev doc), Sleep 1, Generate (critic_request ev doc)]"
proof -
  let ?req = "critic_request ev doc"
  have inv: "\<not> fst (validate_critique_output (critique_of (svc n ?req)))" for n
    using bad [rule_format, of n ?req] by (auto simp: critique_of_def)
  from bad obtain t1 where t1: "svc (n_calls w) ?req = Returns t1" by blast
  from bad obtain t2 where t2: "svc (n_calls w + 1) ?req = Returns t2" by blast
  from cpv_loop_all_invalid [where svc = svc and ev = ev and plan = doc and cb = None
      and w = w and max_retry = 2 and attempt = 0 and k = 1 and ?crit0.0 = None,
      OF inv quiet_None ob]
  obtain w' where "cpv_loop ev svc doc 2 None 0 None w =
        (Inr (critique_of (svc (n_calls w + 1) ?req)), w')"
      "trace w' = trace w @ Generate ?req # concat (replicate 1 [Sleep 1, Generate ?req])"
    by auto
  with t1 t2 show ?thesis
    by (auto simp: criticize_plan_with_validation_def critique_of_def)
qed

theorem cpv_always_invalid_two_calls_witness:
  "fst (criticize_plan_with_validation env_keyed (\<lambda>n r. Returns (Some [120])) [] 2 None world0)
     = Inr [120] \<and>
   trace (snd (criticize_plan_with_validation env_keyed (\<lambda>n r. Returns (Some [120])) [] 2 None
     world0)) =
     [Generate (critic_request env_keyed []), Sleep 1, Generate (critic_request env_keyed [])]"
  using cpv_always_invalid_two_calls [of env_keyed world0 "\<lambda>n r. Returns (Some [120])" "[]"]
  by (auto simp: client_obtainable_keyed validate_x or_empty_def trace_world0)









section \<open>Properties of the export\<close>

lemma replace1_encodable:
  "list_all encodable new \<Longrightarrow> list_all encodable s \<Longrightarrow> list_all encodable (replace1 old new s)"
  by (induction s) (auto simp: replace1_def)

lemma replace1_delete: "replace1 old [] s = filter (\<lambda>c. c \<noteq> old) s"
  by (induction s) (auto simp: replace1_def)

lemma convert_markdown_to_txt_filter:
  "convert_markdown_to_txt md = filter (\<lambda>c. c \<noteq> 35 \<and> c \<noteq> 42 \<and> c \<noteq> 96) md"
  by (auto simp: convert_markdown_to_txt_def replace1_delete intro!: filter_cong)

lemma html_parts_encodable:
  "list_all encodable html_part1" "list_all encodable html_part2"
  "list_all encodable html_part3" "list_all encodable html_part4"
  by (simp_all add: html_part1_def html_part2_def html_part3_def html_part4_def encodable_def)

lemma html_encodable:
  "list_all encodable now \<Longrightarrow> list_all encodable md \<Longrightarrow> list_all encodable title \<Longrightarrow>
     list_all encodable (convert_markdown_to_html now md title)"
  by (simp add: convert_markdown_to_html_def html_parts_encodable replace1_encodable
      ascii_def encodable_def)


lemma writestr_ok:
  "list_all encodable data \<Longrightarrow>
     writestr name data zf = Inr (zf @ [(name, concat (map utf8_char data))])"
  by (simp add: writestr_def encode_def)

lemma txt_encodable: "list_all encodable md \<Longrightarrow> list_all encodable (convert_markdown_to_txt md)"
  by (simp add: convert_markdown_to_txt_filter list_all_iff)

text \<open>
  C9, as amended. For every primary document that UTF-8 can encode (and clock texts and
  a critique that it can encode), \<open>create_prd_zip\<close> produces an archive whose
  entries are, in this order, \<open>prd.md\<close>, \<open>prd.html\<close>, \<open>prd.txt\<close> and, when the
  critique is present and not empty, \<open>critique.md\<close> and \<open>critique.html\<close>, and no
  others. The \<open>prd.md\<close> entry is the encoded primary content as it came, and the
  \<open>prd.txt\<close> entry is the encoded primary content with every \<open>#\<close>, \<open>*\<close> and
  backquote removed.
\<close>

theorem create_prd_zip_entries:
  assumes prd: "list_all encodable prd" and n1: "list_all encodable now1"
    and crit: "list_all encodable (or_empty critique)" and n2: "list_all encodable now2"
  shows "\<exists>html chtml.
     create_prd_zip now1 now2 prd critique =
       Inr ([(ascii ''prd.md'', concat (map utf8_char prd)),
             (ascii ''prd.html'', html),
             (ascii ''prd.txt'',
                concat (map utf8_char (filter (\<lambda>c. c \<noteq> 35 \<and> c \<noteq> 42 \<and> c \<noteq> 96) prd)))] @
            (if or_empty critique = [] then []
             else [(ascii ''critique.md'', concat (map utf8_char (or_empty critique))),
                   (ascii ''critique.html'', chtml)]))"
proof -
  have t: "list_all encodable (ascii ''PRD'')" "list_all encodable critique_title"
    by (simp_all add: ascii_def critique_title_def encodable_def)
  note h1 = html_encodable [OF n1 prd t(1)]
  note h2 = html_encodable [OF n2 crit t(2)]
  note tx = txt_encodable [OF prd]
  have "create_prd_zip now1 now2 prd critique =
       Inr ([(ascii ''prd.md'', concat (map utf8_char prd)),
             (ascii ''prd.html'',
                concat (map utf8_char (convert_markdown_to_html now1 prd (ascii ''PRD'')))),
             (ascii ''prd.txt'', concat (map utf8_char (convert_markdown_to_txt prd)))] @
            (if or_empty critique = [] then []
             else [(ascii ''critique.md'', concat (map utf8_char (or_empty critique))),
                   (ascii ''critique.html'',
                      concat (map utf8_char
                        (convert_markdown_to_html now2 (or_empty critique) critique_title)))]))"
    by (simp add: create_prd_zip_def writestr_ok [OF prd] writestr_ok [OF h1]
        writestr_ok [OF tx] writestr_ok [OF crit] writestr_ok [OF h2])
  then show ?thesis
    unfolding convert_markdown_to_txt_filter by blast
qed

theorem create_prd_zip_entries_witness:
  "map fst (projr (create_prd_zip [50] [50] [35, 97, 42] (Some [99]))) =
     [ascii ''prd.md'', ascii ''prd.html'', ascii ''prd.txt'', ascii ''critique.md'',
      ascii ''critique.html''] \<and>
   map fst (projr (create_prd_zip [50] [50] [35, 97, 42] None)) =
     [ascii ''prd.md'', ascii ''prd.html'', ascii ''prd.txt''] \<and>
   map_of (projr (create_prd_zip [50] [50] [35, 97, 42] None)) (ascii ''prd.txt'') = Some [97] \<and>
   map_of (projr (create_prd_zip [50] [50] [35, 97, 42] None)) (ascii ''prd.md'') =
     Some [35, 97, 42]"
  using create_prd_zip_entries [of "[35, 97, 42]" "[50]" "Some [99]" "[50]"]
    create_prd_zip_entries [of "[35, 97, 42]" "[50]" None "[50]"]
  by (auto simp: or_empty_def encodable_def utf8_char_def ascii_def)

text \<open>
  The claim as first stated, for every primary document, fails: a document holding a
  lone surrogate cannot be written into the archive, and \<open>create_prd_zip\<close> raises
  \<open>UnicodeEncodeError\<close> instead of producing one.
\<close>

theorem create_prd_zip_surrogate_counterexample:
  "create_prd_zip [] [] [0xD800] None =
     Inl (Exn UnicodeEncodeError (ascii ''surrogates not allowed''))"
  by (simp add: create_prd_zip_def writestr_def encode_def encodable_def)

end
